theory Spec2Isabelle
  imports Main "HOL-Library.Word" "HOL-Library.Signed_Division"
begin

section \<open>The factory package: data model\<close>

text \<open>
  The Go package builds values of a record type \<open>T\<close> from a base constructor and ordered
  lists of mutation closures, optionally persisting them. The embedding keeps the
  structure of the source:

  \<^item> \<open>'a\<close> is the built type \<open>T\<close>, \<open>'e\<close> the type of non-nil \<open>error\<close> values, and \<open>'w\<close>
    is everything the caller's closures can reach besides their argument (captured
    variables, databases, call counters of test doubles). Every closure is a state
    transformer on \<open>'w\<close>.
  \<^item> A Go panic is the outcome \<open>Panic msg\<close>; it unwinds, so it carries no state.
  \<^item> A closure \<open>func(*T)\<close> receives the value and returns the mutated value.
  \<^item> The receiver \<open>*Factory[T]\<close> is passed as a record and returned updated (only the
    field \<open>seq\<close> ever changes during production). A factory that a closure captures
    by pointer lives in \<open>'w\<close> and is reached through a \<open>Ref\<close>.
  \<^item> \<open>int64\<close> is a 64-bit word, \<open>atomic.AddInt64\<close> wraps around; Go's \<open>int\<close> is taken to
    be 64 bits wide and counts are mathematical integers within that range.
  \<^item> Function values are non-nil, except the fields that the source tests against nil
    (\<open>persist\<close>, \<open>tapFn\<close> and the \<open>linkFn\<close> of \<open>HasFactory\<close>), which are options.
  \<^item> The closures of a factory do not reach the struct of that factory itself: while
    \<open>Make\<close> runs them, the receiver's fields stay as \<open>Make\<close> read them.
  \<^item> \<open>State\<close>, \<open>For\<close> and \<open>ForModel\<close> return the address of a struct copy. The copy is a
    record of its own here; that the copy's \<open>states\<close> map is the receiver's map in Go
    matters only for configuration calls made after the copy, which no statement below
    is about.
\<close>

type_synonym int64 = "64 word"

datatype 'r outcome = Panic string | Done 'r

type_synonym ('r, 'w) eff = "'w \<Rightarrow> ('r \<times> 'w) outcome"

definition andThen :: "('r, 'w) eff \<Rightarrow> ('r \<Rightarrow> ('q, 'w) eff) \<Rightarrow> ('q, 'w) eff" where
  "andThen m k w = (case m w of Panic msg \<Rightarrow> Panic msg | Done (r, w') \<Rightarrow> k r w')"

text \<open>\<open>type Trait[T any] func(*T)\<close>\<close>
type_synonym ('a, 'w) Trait = "'a \<Rightarrow> ('a, 'w) eff"

text \<open>\<open>BeforeCreate\<close> and \<open>AfterCreate\<close>: \<open>func(ctx, *T) error\<close>; \<open>None\<close> is the nil error.\<close>
type_synonym ('a, 'e, 'w) Hook = "'a \<Rightarrow> ('e option \<times> 'a, 'w) eff"

text \<open>
  \<open>PersistFn\<close>: \<open>func(ctx, *T) (*T, error)\<close>. \<open>Inl err\<close> is a non-nil error (the returned
  pointer is then ignored by every caller in the package), \<open>Inr out\<close> the value behind
  the returned pointer when the error is nil; that pointer is taken to be non-nil.
\<close>
type_synonym ('a, 'e, 'w) PersistFn = "'a \<Rightarrow> ('e + 'a, 'w) eff"

text \<open>
  The struct \<open>Factory[T]\<close>, field by field. The fields \<open>before\<close> and \<open>after\<close> of the source
  are \<open>beforeHooks\<close> and \<open>afterHooks\<close> here: \<open>before\<close> is an infix of the language that
  code is generated to.
\<close>
record ('a, 'e, 'w) Factory =
  makeFn :: "int64 \<Rightarrow> ('a, 'w) eff"
  defaults :: "('a, 'w) Trait list"
  rawDefaults :: "('a, 'w) Trait list"
  traits :: "('a, 'w) Trait list"
  sequences :: "('a, 'w) Trait list"
  states :: "string \<rightharpoonup> ('a, 'w) Trait"
  persist :: "('a, 'e, 'w) PersistFn option"
  beforeHooks :: "('a, 'e, 'w) Hook list"
  afterHooks :: "('a, 'e, 'w) Hook list"
  tapFn :: "('a \<Rightarrow> (unit, 'w) eff) option"
  seq :: int64
  count :: int

text \<open>A pointer captured by a closure: where the pointee sits in \<open>'w\<close>.\<close>
record ('x, 'w) Ref =
  rd :: "'w \<Rightarrow> 'x"
  wr :: "'x \<Rightarrow> 'w \<Rightarrow> 'w"

section \<open>Production: Make and Raw\<close>

text \<open>\<open>nextSeq\<close>: \<open>atomic.AddInt64(&f.seq, 1)\<close> returns the new value.\<close>
definition nextSeq :: "('a, 'e, 'w) Factory \<Rightarrow> int64 \<times> ('a, 'e, 'w) Factory" where
  "nextSeq f = (seq f + 1, f\<lparr>seq := seq f + 1\<rparr>)"

text \<open>\<open>for _, tr := range trs { tr(&t) }\<close>\<close>
fun applyTraits :: "('a, 'w) Trait list \<Rightarrow> ('a, 'w) Trait" where
  "applyTraits [] t w = Done (t, w)"
| "applyTraits (tr # trs) t w =
     (case tr t w of Panic msg \<Rightarrow> Panic msg | Done (t', w') \<Rightarrow> applyTraits trs t' w')"

text \<open>
  The sequence stage of \<open>Make\<close> and \<open>Raw\<close>:
  \<open>if len(f.sequences) > 0 { idx := int((seq - 1) % int64(len(f.sequences))); f.sequences[idx](&t) }\<close>.
  Go's \<open>%\<close> truncates towards zero (\<open>smod\<close>), so a negative \<open>seq - 1\<close> gives an index
  that is zero or negative; a negative index panics.
\<close>
definition applySequence :: "('a, 'w) Trait list \<Rightarrow> int64 \<Rightarrow> ('a, 'w) Trait" where
  "applySequence sqs s t w =
     (if length sqs > 0 then
        (let idx = sint (s - 1) smod int (length sqs) in
         if idx < 0 then Panic ''index out of range''
         else (sqs ! nat idx) t w)
      else Done (t, w))"

text \<open>\<open>if f.tapFn != nil { f.tapFn(t) }\<close>: the observer gets a copy of the value.\<close>
definition callTap :: "('a \<Rightarrow> (unit, 'w) eff) option \<Rightarrow> 'a \<Rightarrow> (unit, 'w) eff" where
  "callTap tp t w = (case tp of None \<Rightarrow> Done ((), w) | Some fn \<Rightarrow> fn t w)"

definition Make ::
  "('a, 'e, 'w) Factory \<Rightarrow> ('a, 'w) Trait list \<Rightarrow> ('a \<times> ('a, 'e, 'w) Factory, 'w) eff" where
  "Make f ts =
     (case nextSeq f of (s, f') \<Rightarrow>
      andThen (makeFn f s) (\<lambda>t.
      andThen (applyTraits (defaults f) t) (\<lambda>t.
      andThen (applyTraits (traits f) t) (\<lambda>t.
      andThen (applySequence (sequences f) s t) (\<lambda>t.
      andThen (applyTraits ts t) (\<lambda>t.
      andThen (callTap (tapFn f) t) (\<lambda>_.
      (\<lambda>w. Done ((t, f'), w)))))))))"

definition Raw ::
  "('a, 'e, 'w) Factory \<Rightarrow> ('a, 'w) Trait list \<Rightarrow> ('a \<times> ('a, 'e, 'w) Factory, 'w) eff" where
  "Raw f ts =
     (case nextSeq f of (s, f') \<Rightarrow>
      andThen (makeFn f s) (\<lambda>t.
      andThen (applyTraits (defaults f) t) (\<lambda>t.
      andThen (applyTraits (rawDefaults f) t) (\<lambda>t.
      andThen (applyTraits (traits f) t) (\<lambda>t.
      andThen (applySequence (sequences f) s t) (\<lambda>t.
      andThen (applyTraits ts t) (\<lambda>t.
      andThen (callTap (tapFn f) t) (\<lambda>_.
      (\<lambda>w. Done ((t, f'), w))))))))))"

text \<open>
  \<open>MakeMany\<close>: \<open>items := make([]T, count); for i := 0; i < count; i++ { items[i] = f.Make(ts...) }\<close>.
  \<open>make\<close> panics on a negative length; the slice is filled in index order.
\<close>
fun makeLoop ::
  "nat \<Rightarrow> ('a, 'e, 'w) Factory \<Rightarrow> ('a, 'w) Trait list \<Rightarrow> 'a list \<Rightarrow>
   ('a list \<times> ('a, 'e, 'w) Factory, 'w) eff" where
  "makeLoop 0 f ts items w = Done ((items, f), w)"
| "makeLoop (Suc n) f ts items w =
     (case Make f ts w of
        Panic msg \<Rightarrow> Panic msg
      | Done ((t, f'), w') \<Rightarrow> makeLoop n f' ts (items @ [t]) w')"

definition MakeMany ::
  "('a, 'e, 'w) Factory \<Rightarrow> int \<Rightarrow> ('a, 'w) Trait list \<Rightarrow> ('a list \<times> ('a, 'e, 'w) Factory, 'w) eff" where
  "MakeMany f n ts w =
     (if n < 0 then Panic ''makeslice: len out of range''
      else makeLoop (nat n) f ts [] w)"

section \<open>Configuration\<close>

definition New :: "(int64 \<Rightarrow> ('a, 'w) eff) \<Rightarrow> ('a, 'e, 'w) Factory" where
  "New mk = \<lparr>makeFn = mk, defaults = [], rawDefaults = [], traits = [], sequences = [],
     states = Map.empty, persist = None, beforeHooks = [], afterHooks = [], tapFn = None,
     seq = 0, count = 0\<rparr>"

definition WithDefaults :: "('a, 'e, 'w) Factory \<Rightarrow> ('a, 'w) Trait list \<Rightarrow> ('a, 'e, 'w) Factory" where
  "WithDefaults f ts = f\<lparr>defaults := defaults f @ ts\<rparr>"

definition WithRawDefaults :: "('a, 'e, 'w) Factory \<Rightarrow> ('a, 'w) Trait list \<Rightarrow> ('a, 'e, 'w) Factory" where
  "WithRawDefaults f ts = f\<lparr>rawDefaults := rawDefaults f @ ts\<rparr>"

definition WithTraits :: "('a, 'e, 'w) Factory \<Rightarrow> ('a, 'w) Trait list \<Rightarrow> ('a, 'e, 'w) Factory" where
  "WithTraits f ts = f\<lparr>traits := traits f @ ts\<rparr>"

definition Sequence :: "('a, 'e, 'w) Factory \<Rightarrow> ('a, 'w) Trait list \<Rightarrow> ('a, 'e, 'w) Factory" where
  "Sequence f ts = f\<lparr>sequences := ts\<rparr>"


definition WithPersist :: "('a, 'e, 'w) Factory \<Rightarrow> ('a, 'e, 'w) PersistFn \<Rightarrow> ('a, 'e, 'w) Factory" where
  "WithPersist f p = f\<lparr>persist := Some p\<rparr>"

definition BeforeCreate :: "('a, 'e, 'w) Factory \<Rightarrow> ('a, 'e, 'w) Hook \<Rightarrow> ('a, 'e, 'w) Factory" where
  "BeforeCreate f h = f\<lparr>beforeHooks := beforeHooks f @ [h]\<rparr>"

definition AfterCreate :: "('a, 'e, 'w) Factory \<Rightarrow> ('a, 'e, 'w) Hook \<Rightarrow> ('a, 'e, 'w) Factory" where
  "AfterCreate f h = f\<lparr>afterHooks := afterHooks f @ [h]\<rparr>"

definition Tap :: "('a, 'e, 'w) Factory \<Rightarrow> ('a \<Rightarrow> (unit, 'w) eff) \<Rightarrow> ('a, 'e, 'w) Factory" where
  "Tap f fn = f\<lparr>tapFn := Some fn\<rparr>"

text \<open>
  \<open>State\<close>: looks the name up, panics when it is absent, and returns the address of
  \<open>copy := *f\<close> with the state's trait appended to a fresh copy of \<open>traits\<close>. The struct
  copy takes every field as it is, the current \<open>seq\<close> included.
\<close>
definition State :: "('a, 'e, 'w) Factory \<Rightarrow> string \<Rightarrow> ('a, 'e, 'w) Factory outcome" where
  "State f name =
     (case states f name of
        None \<Rightarrow> Panic (''factory: unknown state '' @ [CHR 0x27] @ name @ [CHR 0x27])
      | Some trait \<Rightarrow> Done (f\<lparr>traits := ([] @ traits f) @ [trait]\<rparr>))"


section \<open>Persistence: Create and CreateMany\<close>

text \<open>
  \<open>for _, h := range hooks { if err := h(ctx, &obj); err != nil { return nil, err } }\<close>:
  the loop stops at the first non-nil error and reports it.
\<close>
fun runHooks :: "('a, 'e, 'w) Hook list \<Rightarrow> ('a, 'e, 'w) Hook" where
  "runHooks [] obj w = Done ((None, obj), w)"
| "runHooks (h # hs) obj w =
     (case h obj w of
        Panic msg \<Rightarrow> Panic msg
      | Done ((Some err, obj'), w') \<Rightarrow> Done ((Some err, obj'), w')
      | Done ((None, obj'), w') \<Rightarrow> runHooks hs obj' w')"

text \<open>
  \<open>Create\<close> returns \<open>(nil, err)\<close>, here \<open>Inl err\<close>, or \<open>(out, nil)\<close>, here \<open>Inr out\<close> with the
  value behind \<open>out\<close> after the after-hooks ran on it.
\<close>
definition Create ::
  "('a, 'e, 'w) Factory \<Rightarrow> ('a, 'w) Trait list \<Rightarrow> (('e + 'a) \<times> ('a, 'e, 'w) Factory, 'w) eff" where
  "Create f ts =
     (case persist f of
        None \<Rightarrow> (\<lambda>w. Panic ''factory: Create called without persist function; use WithPersist'')
      | Some p \<Rightarrow>
          andThen (Make f ts) (\<lambda>(obj, f').
          andThen (runHooks (beforeHooks f) obj) (\<lambda>(err, obj).
            case err of
              Some e \<Rightarrow> (\<lambda>w. Done ((Inl e, f'), w))
            | None \<Rightarrow>
                andThen (p obj) (\<lambda>r.
                  case r of
                    Inl e \<Rightarrow> (\<lambda>w. Done ((Inl e, f'), w))
                  | Inr out \<Rightarrow>
                      andThen (runHooks (afterHooks f) out) (\<lambda>(err, out).
                        case err of
                          Some e \<Rightarrow> (\<lambda>w. Done ((Inl e, f'), w))
                        | None \<Rightarrow> (\<lambda>w. Done ((Inr out, f'), w)))))))"

text \<open>
  The loop of \<open>CreateMany\<close>: on an error of \<open>Create\<close> it returns \<open>items, err\<close>, the items
  appended so far.
\<close>
fun createLoop ::
  "nat \<Rightarrow> ('a, 'e, 'w) Factory \<Rightarrow> ('a, 'w) Trait list \<Rightarrow> 'a list \<Rightarrow>
   (('a list \<times> 'e option) \<times> ('a, 'e, 'w) Factory, 'w) eff" where
  "createLoop 0 f ts items w = Done (((items, None), f), w)"
| "createLoop (Suc n) f ts items w =
     (case Create f ts w of
        Panic msg \<Rightarrow> Panic msg
      | Done ((Inl err, f'), w') \<Rightarrow> Done (((items, Some err), f'), w')
      | Done ((Inr item, f'), w') \<Rightarrow> createLoop n f' ts (items @ [item]) w')"

definition CreateMany ::
  "('a, 'e, 'w) Factory \<Rightarrow> int \<Rightarrow> ('a, 'w) Trait list \<Rightarrow>
   (('a list \<times> 'e option) \<times> ('a, 'e, 'w) Factory, 'w) eff" where
  "CreateMany f n ts w =
     (if persist f = None
      then Panic ''factory: CreateMany called without persist function; use WithPersist''
      else if n < 0 then Panic ''makeslice: cap out of range''
      else createLoop (nat n) f ts [] w)"

section \<open>Relationships\<close>

text \<open>
  A \<open>*Factory[R]\<close> that a closure captured: its configuration is fixed and its counter is
  a cell of the world.
\<close>
definition factoryAt :: "('r, 'e, 'w) Factory \<Rightarrow> (int64, 'w) Ref \<Rightarrow> (('r, 'e, 'w) Factory, 'w) Ref" where
  "factoryAt cfg cell = \<lparr>rd = (\<lambda>w. cfg\<lparr>seq := rd cell w\<rparr>), wr = (\<lambda>f. wr cell (seq f))\<rparr>"

text \<open>\<open>Make\<close> called through such a pointer: the advanced counter is stored back.\<close>
definition MakeAt :: "(('r, 'e, 'w) Factory, 'w) Ref \<Rightarrow> ('r, 'w) Trait list \<Rightarrow> ('r, 'w) eff" where
  "MakeAt ref ts w =
     (case Make (rd ref w) ts w of
        Panic msg \<Rightarrow> Panic msg
      | Done ((t, f'), w') \<Rightarrow> Done (t, wr ref f' w'))"

text \<open>
  \<open>For\<close>: a copy of \<open>f\<close> whose \<open>defaults\<close> gained the closure
  \<open>func(t *T) { related := relatedFactory.Make(); linkFn(t, &related) }\<close>.
  The link function gets the address of the local \<open>related\<close>; only what it writes to
  \<open>t\<close> and to the world survives.
\<close>
definition For ::
  "('a, 'e, 'w) Factory \<Rightarrow> (('r, 'e, 'w) Factory, 'w) Ref \<Rightarrow> ('a \<Rightarrow> 'r \<Rightarrow> ('a, 'w) eff) \<Rightarrow>
   ('a, 'e, 'w) Factory" where
  "For f relatedFactory linkFn =
     f\<lparr>traits := [] @ traits f,
       defaults := ([] @ defaults f) @
         [\<lambda>t. andThen (MakeAt relatedFactory []) (\<lambda>related. linkFn t related)]\<rparr>"



text \<open>
  \<open>HasFactory\<close>: the fields \<open>parent\<close>, \<open>child\<close>, \<open>count\<close> (here \<open>hasCount\<close>) and \<open>linkFn\<close>,
  which may be nil. The two factories are pointers in Go; here the record holds them and
  \<open>HasFactory.Create\<close> returns it with their counters advanced. The link function gets the
  parent as a value and is taken to write to the child only.
\<close>
record ('p, 'c, 'e, 'w) HasFactory =
  parent :: "('p, 'e, 'w) Factory"
  child :: "('c, 'e, 'w) Factory"
  hasCount :: int
  linkFn :: "('p \<Rightarrow> 'c \<Rightarrow> ('c, 'w) eff) option"





section \<open>Contracts of the caller's closures\<close>

text \<open>
  \<open>ensures g Q\<close>: the closure \<open>g\<close> returns normally from every argument and every world,
  and its result is related to its argument by \<open>Q\<close>.
\<close>
definition ensures :: "('x \<Rightarrow> ('y, 'w) eff) \<Rightarrow> ('x \<Rightarrow> 'y \<Rightarrow> bool) \<Rightarrow> bool" where
  "ensures g Q = (\<forall>x w. \<exists>y w'. g x w = Done (y, w') \<and> Q x y)"

definition returnsNormally :: "('x \<Rightarrow> ('y, 'w) eff) \<Rightarrow> bool" where
  "returnsNormally g = ensures g (\<lambda>x y. True)"

text \<open>The mutation writes \<open>v\<close> to the field \<open>F\<close>.\<close>
definition setsField :: "('a \<Rightarrow> 'v) \<Rightarrow> 'v \<Rightarrow> ('a, 'w) Trait \<Rightarrow> bool" where
  "setsField F v tr = ensures tr (\<lambda>t t'. F t' = v)"

text \<open>The mutation leaves the field \<open>F\<close> as it is.\<close>
definition keepsField :: "('a \<Rightarrow> 'v) \<Rightarrow> ('a, 'w) Trait \<Rightarrow> bool" where
  "keepsField F tr = ensures tr (\<lambda>t t'. F t' = F t)"

text \<open>The observer is nil or returns normally.\<close>
definition tapReturns :: "('a \<Rightarrow> (unit, 'w) eff) option \<Rightarrow> bool" where
  "tapReturns tp = (case tp of None \<Rightarrow> True | Some fn \<Rightarrow> returnsNormally fn)"

section \<open>The order of the layers, in the words of the specification\<close>

datatype mode = Standard | RawMode

text \<open>The index of the specification: \<open>(sequence - 1) mod length\<close>.\<close>
definition patternIndex :: "int64 \<Rightarrow> nat \<Rightarrow> nat" where
  "patternIndex s len = nat ((sint s - 1) mod int len)"

text \<open>
  The layers between the constructor and the observer, as one list: \<open>defaults\<close>, then
  \<open>rawOnlyDefaults\<close> iff the raw path is taken, then \<open>globalTraits\<close>, then
  \<open>sequencePattern[(seq - 1) mod len(sequencePattern)]\<close> iff the pattern is non-empty, then
  the per-call mutations. Nothing here is taken from the code's sequence stage.
\<close>
definition layersInOrder ::
  "('a, 'e, 'w) Factory \<Rightarrow> mode \<Rightarrow> int64 \<Rightarrow> ('a, 'w) Trait list \<Rightarrow> ('a, 'w) Trait list" where
  "layersInOrder f m s perCall =
     defaults f
     @ (if m = RawMode then rawDefaults f else [])
     @ traits f
     @ (if sequences f \<noteq> [] then [sequences f ! patternIndex s (length (sequences f))] else [])
     @ perCall"

text \<open>
  Construct with the next sequence value, apply the given layers in list order, show the
  value to the observer, return it with the advanced counter.
\<close>
definition produceWith ::
  "('a, 'e, 'w) Factory \<Rightarrow> ('a, 'w) Trait list \<Rightarrow> ('a \<times> ('a, 'e, 'w) Factory, 'w) eff" where
  "produceWith f layers =
     andThen (makeFn f (seq f + 1)) (\<lambda>v.
     andThen (applyTraits layers v) (\<lambda>v.
     andThen (callTap (tapFn f) v) (\<lambda>_.
     (\<lambda>w. Done ((v, f\<lparr>seq := seq f + 1\<rparr>), w)))))"

text \<open>
  Produce-one of the specification: increment the counter, construct, apply the layers in
  list order, show the value to the observer, return it.
\<close>
definition produceOne ::
  "('a, 'e, 'w) Factory \<Rightarrow> ('a, 'w) Trait list \<Rightarrow> mode \<Rightarrow> ('a \<times> ('a, 'e, 'w) Factory, 'w) eff" where
  "produceOne f perCall m =
     andThen (makeFn f (seq f + 1)) (\<lambda>v.
     andThen (applyTraits (layersInOrder f m (seq f + 1) perCall) v) (\<lambda>v.
     andThen (callTap (tapFn f) v) (\<lambda>_.
     (\<lambda>w. Done ((v, f\<lparr>seq := seq f + 1\<rparr>), w)))))"

section \<open>Example definitions\<close>

text \<open>
  A small instance in the style of the package's tests: users and posts, string errors,
  and a world that records under their names, in order, the calls of the persist functions
  and hooks that are test doubles, how often the observer ran, and the counter of a user
  factory that closures capture.
\<close>

record user =
  num :: int64
  role :: string
  token :: string

record post =
  title :: int64
  authorID :: int64

record world =
  callLog :: "string list"
  taps :: nat
  userSeq :: int64

definition emptyWorld :: world where
  "emptyWorld = \<lparr>callLog = [], taps = 0, userSeq = 0\<rparr>"

definition newUser :: "int64 \<Rightarrow> (user, world) eff" where
  "newUser s w = Done (\<lparr>num = s, role = ''user'', token = []\<rparr>, w)"

definition newPost :: "int64 \<Rightarrow> (post, world) eff" where
  "newPost s w = Done (\<lparr>title = s, authorID = 0\<rparr>, w)"

definition setRole :: "string \<Rightarrow> (user, world) Trait" where
  "setRole r u w = Done (u\<lparr>role := r\<rparr>, w)"

definition setToken :: "string \<Rightarrow> (user, world) Trait" where
  "setToken r u w = Done (u\<lparr>token := r\<rparr>, w)"

definition countTap :: "'a \<Rightarrow> (unit, world) eff" where
  "countTap x w = Done ((), w\<lparr>taps := taps w + 1\<rparr>)"

text \<open>A persist double that records its call under a name and returns its argument.\<close>
definition persistAs :: "string \<Rightarrow> ('a, string, world) PersistFn" where
  "persistAs name x w = Done (Inr x, w\<lparr>callLog := callLog w @ [name]\<rparr>)"

definition failingHook :: "string \<Rightarrow> ('a, string, world) Hook" where
  "failingHook e x w = Done ((Some e, x), w)"

definition linkAuthor :: "post \<Rightarrow> user \<Rightarrow> (post, world) eff" where
  "linkAuthor p u w = Done (p\<lparr>authorID := num u\<rparr>, w)"

definition userSeqCell :: "(int64, world) Ref" where
  "userSeqCell = \<lparr>rd = userSeq, wr = (\<lambda>s w. w\<lparr>userSeq := s\<rparr>)\<rparr>"

definition userFactory :: "(user, string, world) Factory" where
  "userFactory = Tap (WithDefaults (New newUser) [setRole ''member'']) countTap"

definition postFactory :: "(post, string, world) Factory" where
  "postFactory = WithPersist (New newPost) (persistAs ''post'')"

text \<open>Defaults set the role to \<open>A\<close>, global traits set it to \<open>B\<close>; the observer counts.\<close>
definition layeredFactory :: "(user, string, world) Factory" where
  "layeredFactory =
     Tap (WithTraits (WithDefaults (New newUser) [setRole ''A'']) [setRole ''B'']) countTap"

text \<open>
  The same factory with the pattern \<open>[X, Y]\<close>, after one item was made: its counter is 1.
\<close>
definition layeredPattern :: "(user, string, world) Factory" where
  "layeredPattern = (Sequence layeredFactory [setRole ''X'', setRole ''Y''])\<lparr>seq := 1\<rparr>"

text \<open>A raw-only default sets the token; defaults and the observer as in the tests.\<close>
definition rawFactory :: "(user, string, world) Factory" where
  "rawFactory =
     Tap (WithRawDefaults (WithDefaults (New newUser) [setRole ''member'']) [setToken ''secret''])
       countTap"

text \<open>A two-element pattern: the role alternates between \<open>X\<close> and \<open>Y\<close>.\<close>
definition patternFactory :: "(user, string, world) Factory" where
  "patternFactory = Sequence (New newUser) [setRole ''X'', setRole ''Y'']"


text \<open>A hook double that records its call and reports no error.\<close>
definition noteHook :: "string \<Rightarrow> ('a, string, world) Hook" where
  "noteHook name x w = Done ((None, x), w\<lparr>callLog := callLog w @ [name]\<rparr>)"


text \<open>
  Three before-hooks, the second of which fails, a recording persist function and a
  recording after-hook.
\<close>
definition hookedFactory :: "(user, string, world) Factory" where
  "hookedFactory =
     AfterCreate
       (BeforeCreate
         (BeforeCreate
           (BeforeCreate (WithPersist (New newUser) (persistAs ''persist''))
             (noteHook ''before 1''))
           (failingHook ''validation failed''))
         (noteHook ''before 3''))
       (noteHook ''after 1'')"



text \<open>
  A user factory with a recording persist function, behind a pointer (its counter is the
  cell \<open>userSeq\<close> of the world), and the post factory composed with it by \<open>For\<close>.
\<close>
definition persistedUsers :: "((user, string, world) Factory, world) Ref" where
  "persistedUsers = factoryAt (WithPersist (New newUser) (persistAs ''user'')) userSeqCell"

definition postOfUser :: "(post, string, world) Factory" where
  "postOfUser = For postFactory persistedUsers linkAuthor"

text \<open>What a run returned, and the world it left.\<close>
definition returned :: "('r \<times> 'w) outcome \<Rightarrow> 'r option" where
  "returned m = (case m of Panic msg \<Rightarrow> None | Done (r, w) \<Rightarrow> Some r)"

definition worldAfter :: "('r \<times> 'w) outcome \<Rightarrow> 'w option" where
  "worldAfter m = (case m of Panic msg \<Rightarrow> None | Done (r, w) \<Rightarrow> Some w)"

section \<open>Basic facts\<close>

lemma andThen_Done: "andThen (\<lambda>w. Done (r, w)) k = k r"
  by (rule ext) (simp add: andThen_def)

lemma applyTraits_Nil: "applyTraits [] t = (\<lambda>w. Done (t, w))"
  by (rule ext) simp

lemma applyTraits_append:
  "applyTraits (xs @ ys) t = andThen (applyTraits xs t) (applyTraits ys)"
proof (rule ext)
  fix w
  show "applyTraits (xs @ ys) t w = andThen (applyTraits xs t) (applyTraits ys) w"
  proof (induction xs arbitrary: t w)
    case Nil
    show ?case by (simp add: andThen_def)
  next
    case (Cons x xs)
    show ?case
    proof (cases "x t w")
      case (Panic msg)
      then show ?thesis by (simp add: andThen_def)
    next
      case (Done r)
      obtain t' w' where r: "r = (t', w')" by (cases r)
      from Done r Cons.IH [of t' w'] show ?thesis by (simp add: andThen_def)
    qed
  qed
qed

lemma andThen_assoc:
  "andThen (andThen m k) h = andThen m (\<lambda>r. andThen (k r) h)"
  by (rule ext) (simp add: andThen_def split: outcome.splits prod.splits)

lemma applyTraits_single: "applyTraits [x] t = x t"
  by (rule ext) (simp add: split: outcome.splits prod.splits)

lemma applySequence_Nil: "applySequence [] s t = (\<lambda>w. Done (t, w))"
  by (rule ext) (simp add: applySequence_def)

lemma Make_stagewise:
  "Make f ts = produceWith f (defaults f @ traits f
     @ (if sequences f \<noteq> [] then [applySequence (sequences f) (seq f + 1)] else []) @ ts)"
  by (simp add: Make_def produceWith_def nextSeq_def applyTraits_append
      andThen_assoc applyTraits_single applyTraits_Nil andThen_Done applySequence_Nil)

lemma Raw_stagewise:
  "Raw f ts = produceWith f (defaults f @ rawDefaults f @ traits f
     @ (if sequences f \<noteq> [] then [applySequence (sequences f) (seq f + 1)] else []) @ ts)"
  by (simp add: Raw_def produceWith_def nextSeq_def applyTraits_append
      andThen_assoc applyTraits_single applyTraits_Nil andThen_Done applySequence_Nil)

lemma Make_eq_Done:
  "makeFn f (seq f + 1) w = Done (t0, w0) \<Longrightarrow>
   applyTraits (defaults f) t0 w0 = Done (t1, w1) \<Longrightarrow>
   applyTraits (traits f) t1 w1 = Done (t2, w2) \<Longrightarrow>
   applySequence (sequences f) (seq f + 1) t2 w2 = Done (t3, w3) \<Longrightarrow>
   applyTraits ts t3 w3 = Done (t4, w4) \<Longrightarrow>
   callTap (tapFn f) t4 w4 = Done (u, w5) \<Longrightarrow>
   Make f ts w = Done ((t4, f\<lparr>seq := seq f + 1\<rparr>), w5)"
  by (simp add: Make_def nextSeq_def andThen_def)

lemma Raw_eq_Done:
  "makeFn f (seq f + 1) w = Done (t0, w0) \<Longrightarrow>
   applyTraits (defaults f) t0 w0 = Done (t1, w1) \<Longrightarrow>
   applyTraits (rawDefaults f) t1 w1 = Done (t1r, w1r) \<Longrightarrow>
   applyTraits (traits f) t1r w1r = Done (t2, w2) \<Longrightarrow>
   applySequence (sequences f) (seq f + 1) t2 w2 = Done (t3, w3) \<Longrightarrow>
   applyTraits ts t3 w3 = Done (t4, w4) \<Longrightarrow>
   callTap (tapFn f) t4 w4 = Done (u, w5) \<Longrightarrow>
   Raw f ts w = Done ((t4, f\<lparr>seq := seq f + 1\<rparr>), w5)"
  by (simp add: Raw_def nextSeq_def andThen_def)

lemma ensuresD: "ensures g Q \<Longrightarrow> \<exists>y w'. g x w = Done (y, w') \<and> Q x y"
  by (simp add: ensures_def)

lemma ensures_weaken: "ensures g Q \<Longrightarrow> (\<And>x y. Q x y \<Longrightarrow> R x y) \<Longrightarrow> ensures g R"
  unfolding ensures_def by blast

lemma setsField_returns: "setsField F v tr \<Longrightarrow> returnsNormally tr"
  unfolding setsField_def returnsNormally_def by (erule ensures_weaken) simp

lemma keepsField_returns: "keepsField F tr \<Longrightarrow> returnsNormally tr"
  unfolding keepsField_def returnsNormally_def by (erule ensures_weaken) simp

lemma applyTraits_returns:
  "list_all returnsNormally xs \<Longrightarrow> \<exists>t' w'. applyTraits xs t w = Done (t', w')"
proof (induction xs arbitrary: t w)
  case Nil
  show ?case by simp
next
  case (Cons x xs)
  from Cons.prems have "returnsNormally x" by simp
  then obtain t1 w1 where x: "x t w = Done (t1, w1)"
    unfolding returnsNormally_def by (blast dest: ensuresD)
  from Cons.prems have "list_all returnsNormally xs" by simp
  from Cons.IH [OF this, of t1 w1] x show ?case by simp
qed

lemma applyTraits_keeps:
  "list_all (keepsField F) xs \<Longrightarrow> \<exists>t' w'. applyTraits xs t w = Done (t', w') \<and> F t' = F t"
proof (induction xs arbitrary: t w)
  case Nil
  show ?case by simp
next
  case (Cons x xs)
  from Cons.prems have "keepsField F x" by simp
  then obtain t1 w1 where x: "x t w = Done (t1, w1)" and F1: "F t1 = F t"
    unfolding keepsField_def by (blast dest: ensuresD)
  from Cons.prems have "list_all (keepsField F) xs" by simp
  from Cons.IH [OF this, of t1 w1] x F1 show ?case by simp
qed

lemma applyTraits_sets_last:
  assumes "list_all returnsNormally xs" and "setsField F v x"
  shows "\<exists>t' w'. applyTraits (xs @ [x]) t w = Done (t', w') \<and> F t' = v"
proof -
  from applyTraits_returns [OF assms(1), of t w]
  obtain t1 w1 where 1: "applyTraits xs t w = Done (t1, w1)" by blast
  from assms(2) obtain t2 w2 where 2: "x t1 w1 = Done (t2, w2)" and F: "F t2 = v"
    unfolding setsField_def by (blast dest: ensuresD)
  from 1 2 F show ?thesis by (simp add: applyTraits_append andThen_def)
qed

lemma callTap_returns: "tapReturns tp \<Longrightarrow> \<exists>w'. callTap tp t w = Done ((), w')"
  by (cases tp) (auto simp: tapReturns_def callTap_def returnsNormally_def ensures_def)

lemma smod_nonneg: "0 \<le> a \<Longrightarrow> 0 < b \<Longrightarrow> (a::int) smod b = a mod b"
  by (cases "a = 0") (simp_all add: signed_modulo_int_def)

lemma applySequence_index:
  assumes "sqs \<noteq> []" and "0 \<le> sint (s - 1)"
  shows "applySequence sqs s = sqs ! (nat (sint (s - 1)) mod length sqs)"
proof -
  have pos: "0 < int (length sqs)" using assms(1) by simp
  have eq: "sint (s - 1) smod int (length sqs) = sint (s - 1) mod int (length sqs)"
    using assms(2) pos by (rule smod_nonneg)
  have nn: "0 \<le> sint (s - 1) mod int (length sqs)" using pos by simp
  have idx: "nat (sint (s - 1) mod int (length sqs)) = nat (sint (s - 1)) mod length sqs"
    using assms(2) by (simp add: nat_mod_distrib)
  show ?thesis
  proof (rule ext, rule ext)
    fix t w
    from nn have "\<not> sint (s - 1) mod int (length sqs) < 0" by simp
    with assms(1) eq idx
    show "applySequence sqs s t w = (sqs ! (nat (sint (s - 1)) mod length sqs)) t w"
      by (simp add: applySequence_def Let_def)
  qed
qed

lemma applySequence_stage:
  assumes "list_all (\<lambda>g. ensures g Q) sqs" and "sqs = [] \<or> 0 \<le> sint (s - 1)"
    and refl: "\<And>t. Q t t"
  shows "\<exists>t' w'. applySequence sqs s t w = Done (t', w') \<and> Q t t'"
proof (cases "sqs = []")
  case True
  then show ?thesis by (simp add: applySequence_def refl)
next
  case False
  with assms(2) have nn: "0 \<le> sint (s - 1)" by simp
  have "nat (sint (s - 1)) mod length sqs < length sqs" using False by simp
  with assms(1) have "ensures (sqs ! (nat (sint (s - 1)) mod length sqs)) Q"
    by (simp add: list_all_length)
  then show ?thesis
    unfolding applySequence_index [OF False nn] by (rule ensuresD)
qed

lemma Make_stages:
  assumes mk: "ensures (makeFn f) Q0"
    and ds: "\<And>t w. \<exists>t' w'. applyTraits (defaults f) t w = Done (t', w') \<and> Q1 t t'"
    and gs: "\<And>t w. \<exists>t' w'. applyTraits (traits f) t w = Done (t', w') \<and> Q2 t t'"
    and sq: "\<And>t w. \<exists>t' w'. applySequence (sequences f) (seq f + 1) t w = Done (t', w') \<and> Q3 t t'"
    and ts: "\<And>t w. \<exists>t' w'. applyTraits ts t w = Done (t', w') \<and> Q4 t t'"
    and tp: "tapReturns (tapFn f)"
  shows "\<exists>t0 t1 t2 t3 t4 w'. Make f ts w = Done ((t4, f\<lparr>seq := seq f + 1\<rparr>), w') \<and>
           Q0 (seq f + 1) t0 \<and> Q1 t0 t1 \<and> Q2 t1 t2 \<and> Q3 t2 t3 \<and> Q4 t3 t4"
proof -
  from ensuresD [OF mk, of "seq f + 1" w]
  obtain t0 w0 where 0: "makeFn f (seq f + 1) w = Done (t0, w0)" and q0: "Q0 (seq f + 1) t0"
    by blast
  from ds [of t0 w0]
  obtain t1 w1 where 1: "applyTraits (defaults f) t0 w0 = Done (t1, w1)" and q1: "Q1 t0 t1"
    by blast
  from gs [of t1 w1]
  obtain t2 w2 where 2: "applyTraits (traits f) t1 w1 = Done (t2, w2)" and q2: "Q2 t1 t2"
    by blast
  from sq [of t2 w2]
  obtain t3 w3 where 3: "applySequence (sequences f) (seq f + 1) t2 w2 = Done (t3, w3)"
    and q3: "Q3 t2 t3" by blast
  from ts [of t3 w3]
  obtain t4 w4 where 4: "applyTraits ts t3 w3 = Done (t4, w4)" and q4: "Q4 t3 t4" by blast
  from callTap_returns [OF tp, of t4 w4]
  obtain w5 where 5: "callTap (tapFn f) t4 w4 = Done ((), w5)" by blast
  from Make_eq_Done [OF 0 1 2 3 4 5] q0 q1 q2 q3 q4 show ?thesis by blast
qed

lemma Raw_stages:
  assumes mk: "ensures (makeFn f) Q0"
    and ds: "\<And>t w. \<exists>t' w'. applyTraits (defaults f) t w = Done (t', w') \<and> Q1 t t'"
    and rs: "\<And>t w. \<exists>t' w'. applyTraits (rawDefaults f) t w = Done (t', w') \<and> Q1r t t'"
    and gs: "\<And>t w. \<exists>t' w'. applyTraits (traits f) t w = Done (t', w') \<and> Q2 t t'"
    and sq: "\<And>t w. \<exists>t' w'. applySequence (sequences f) (seq f + 1) t w = Done (t', w') \<and> Q3 t t'"
    and ts: "\<And>t w. \<exists>t' w'. applyTraits ts t w = Done (t', w') \<and> Q4 t t'"
    and tp: "tapReturns (tapFn f)"
  shows "\<exists>t0 t1 t1r t2 t3 t4 w'. Raw f ts w = Done ((t4, f\<lparr>seq := seq f + 1\<rparr>), w') \<and>
           Q0 (seq f + 1) t0 \<and> Q1 t0 t1 \<and> Q1r t1 t1r \<and> Q2 t1r t2 \<and> Q3 t2 t3 \<and> Q4 t3 t4"
proof -
  from ensuresD [OF mk, of "seq f + 1" w]
  obtain t0 w0 where 0: "makeFn f (seq f + 1) w = Done (t0, w0)" and q0: "Q0 (seq f + 1) t0"
    by blast
  from ds [of t0 w0]
  obtain t1 w1 where 1: "applyTraits (defaults f) t0 w0 = Done (t1, w1)" and q1: "Q1 t0 t1"
    by blast
  from rs [of t1 w1]
  obtain t1r w1r where r1: "applyTraits (rawDefaults f) t1 w1 = Done (t1r, w1r)"
    and q1r: "Q1r t1 t1r" by blast
  from gs [of t1r w1r]
  obtain t2 w2 where 2: "applyTraits (traits f) t1r w1r = Done (t2, w2)" and q2: "Q2 t1r t2"
    by blast
  from sq [of t2 w2]
  obtain t3 w3 where 3: "applySequence (sequences f) (seq f + 1) t2 w2 = Done (t3, w3)"
    and q3: "Q3 t2 t3" by blast
  from ts [of t3 w3]
  obtain t4 w4 where 4: "applyTraits ts t3 w3 = Done (t4, w4)" and q4: "Q4 t3 t4" by blast
  from callTap_returns [OF tp, of t4 w4]
  obtain w5 where 5: "callTap (tapFn f) t4 w4 = Done ((), w5)" by blast
  from Raw_eq_Done [OF 0 1 r1 2 3 4 5] q0 q1 q1r q2 q3 q4 show ?thesis by blast
qed

lemma applySequence_Nil_stage:
  "sqs = [] \<Longrightarrow> \<exists>t' w'. applySequence sqs s t w = Done (t', w') \<and> t' = t"
  by (simp add: applySequence_def)

lemma setRole_sets: "setsField role r (setRole r)"
  by (simp add: setsField_def ensures_def setRole_def)

lemma keeps_list:
  "list_all (keepsField G) xs \<Longrightarrow> list_all (\<lambda>g. ensures g (\<lambda>t t'. G t' = G t)) xs"
  by (simp add: list_all_iff keepsField_def)

lemma applySequence_keeps:
  assumes "list_all (keepsField G) sqs" and "sqs = [] \<or> 0 \<le> sint (s - 1)"
  shows "\<exists>t' w'. applySequence sqs s t w = Done (t', w') \<and> G t' = G t"
  using keeps_list [OF assms(1)] assms(2) by (rule applySequence_stage) simp

lemma setRole_keeps_token: "keepsField token (setRole r)"
  by (simp add: keepsField_def ensures_def setRole_def)

lemma setToken_sets: "setsField token v (setToken v)"
  by (simp add: setsField_def ensures_def setToken_def)

lemma sint_of_nat_small:
  "i < 2 ^ 63 \<Longrightarrow> sint (of_nat i :: int64) = int i"
proof -
  assume "i < 2 ^ 63"
  then have "int i < 2 ^ 63" by (metis of_nat_less_iff of_nat_numeral of_nat_power)
  then show ?thesis
    by (simp add: signed_of_nat signed_take_bit_int_eq_self)
qed

lemma upt_shift: "[1..<Suc (Suc m)] = 1 # map Suc [1..<Suc m]"
proof -
  have "[1..<Suc (Suc m)] = 1 # [Suc 1..<Suc (Suc m)]" by (rule upt_conv_Cons) simp
  then show ?thesis by (simp only: map_Suc_upt)
qed

lemma Make_tagged:
  fixes tag :: "'a \<Rightarrow> int64"
  assumes mk: "ensures (makeFn f) (\<lambda>s t. tag t = s)"
    and ds: "list_all (keepsField tag) (defaults f)"
    and gs: "list_all (keepsField tag) (traits f)"
    and sq: "list_all (keepsField tag) (sequences f)" "sequences f = [] \<or> 0 \<le> sint (seq f)"
    and ts: "list_all (keepsField tag) ts"
    and tp: "tapReturns (tapFn f)"
  shows "\<exists>t w'. Make f ts w = Done ((t, f\<lparr>seq := seq f + 1\<rparr>), w') \<and> tag t = seq f + 1"
proof -
  have D: "\<And>t w. \<exists>t' w'. applyTraits (defaults f) t w = Done (t', w') \<and> tag t' = tag t"
    using ds by (rule applyTraits_keeps)
  have T: "\<And>t w. \<exists>t' w'. applyTraits (traits f) t w = Done (t', w') \<and> tag t' = tag t"
    using gs by (rule applyTraits_keeps)
  have S: "\<And>t w. \<exists>t' w'. applySequence (sequences f) (seq f + 1) t w = Done (t', w') \<and> tag t' = tag t"
    using sq by (intro applySequence_keeps) simp_all
  have P: "\<And>t w. \<exists>t' w'. applyTraits ts t w = Done (t', w') \<and> tag t' = tag t"
    using ts by (rule applyTraits_keeps)
  from Make_stages [OF mk D T S P tp, of w] show ?thesis by force
qed

lemma makeLoop_tagged:
  fixes tag :: "'a \<Rightarrow> int64"
  assumes mk: "ensures (makeFn f) (\<lambda>s t. tag t = s)"
    and ds: "list_all (keepsField tag) (defaults f)"
    and gs: "list_all (keepsField tag) (traits f)"
    and sq: "sequences f = []"
    and ts: "list_all (keepsField tag) ts"
    and tp: "tapReturns (tapFn f)"
  shows "\<exists>items' w'. makeLoop m f ts items w = Done ((items @ items', f\<lparr>seq := seq f + of_nat m\<rparr>), w') \<and>
           map tag items' = map (\<lambda>i. seq f + of_nat i) [1..<Suc m]"
  using assms
proof (induction m arbitrary: f items w)
  case 0
  show ?case by simp
next
  case (Suc m)
  have sq': "list_all (keepsField tag) (sequences f)" "sequences f = [] \<or> 0 \<le> sint (seq f)"
    using Suc.prems(4) by simp_all
  from Make_tagged [OF Suc.prems(1,2,3) sq' Suc.prems(5,6), of w]
  obtain t w1 where mk1: "Make f ts w = Done ((t, f\<lparr>seq := seq f + 1\<rparr>), w1)"
    and tg: "tag t = seq f + 1" by blast
  let ?f = "f\<lparr>seq := seq f + 1\<rparr>"
  have "\<exists>items' w'. makeLoop m ?f ts (items @ [t]) w1
            = Done (((items @ [t]) @ items', ?f\<lparr>seq := seq ?f + of_nat m\<rparr>), w') \<and>
           map tag items' = map (\<lambda>i. seq ?f + of_nat i) [1..<Suc m]"
    using Suc.prems by (intro Suc.IH) simp_all
  then obtain rest w2 where
    lp: "makeLoop m ?f ts (items @ [t]) w1
            = Done (((items @ [t]) @ rest, ?f\<lparr>seq := seq ?f + of_nat m\<rparr>), w2)"
    and tr: "map tag rest = map (\<lambda>i. seq ?f + of_nat i) [1..<Suc m]" by blast
  have f2: "?f\<lparr>seq := seq ?f + of_nat m\<rparr> = f\<lparr>seq := seq f + of_nat (Suc m)\<rparr>"
    by (simp add: add.assoc add.commute)
  have tags: "map tag (t # rest) = map (\<lambda>i. seq f + of_nat i) [1..<Suc (Suc m)]"
    unfolding upt_shift using tg tr by (simp add: o_def add.assoc add.commute del: upt_Suc)
  have "makeLoop (Suc m) f ts items w = Done ((items @ (t # rest), f\<lparr>seq := seq f + of_nat (Suc m)\<rparr>), w2)"
    using mk1 lp f2 by simp
  with tags show ?case by blast
qed

lemma setRole_keeps_num: "keepsField num (setRole r)"
  by (simp add: keepsField_def ensures_def setRole_def)

lemma produceOne_produceWith:
  "produceOne f ts m = produceWith f (layersInOrder f m (seq f + 1) ts)"
  by (simp add: produceOne_def produceWith_def)

lemma sint_pred_pos:
  fixes s :: int64
  assumes "0 < sint s"
  shows "sint (s - 1) = sint s - 1"
proof -
  have "sint s < 2 ^ 63" using sint_lt [of s] by simp
  with assms show ?thesis
    by (simp add: sint_word_ariths signed_take_bit_int_eq_self)
qed

lemma applySequence_patternIndex:
  assumes "sqs \<noteq> []" and "0 < sint s"
  shows "applySequence sqs s = sqs ! patternIndex s (length sqs)"
proof -
  have eq: "sint (s - 1) = sint s - 1" using assms(2) by (rule sint_pred_pos)
  then have nn: "0 \<le> sint (s - 1)" using assms(2) by simp
  have "nat (sint (s - 1)) mod length sqs = nat ((sint s - 1) mod int (length sqs))"
    using nn eq by (simp add: nat_mod_distrib)
  with applySequence_index [OF assms(1) nn] show ?thesis
    by (simp add: patternIndex_def)
qed

lemma Make_produceOne:
  "sequences f = [] \<or> 0 < sint (seq f + 1) \<Longrightarrow> Make f ts = produceOne f ts Standard"
  by (auto simp: Make_stagewise produceOne_produceWith layersInOrder_def
      applySequence_patternIndex)

lemma Raw_produceOne:
  "sequences f = [] \<or> 0 < sint (seq f + 1) \<Longrightarrow> Raw f ts = produceOne f ts RawMode"
  by (auto simp: Raw_stagewise produceOne_produceWith layersInOrder_def
      applySequence_patternIndex)

lemma runHooks_fails_at:
  assumes "runHooks hs1 obj w = Done ((None, obj1), w1)"
    and "h obj1 w1 = Done ((Some e, obj2), w2)"
  shows "runHooks (hs1 @ h # hs2) obj w = Done ((Some e, obj2), w2)"
  using assms
proof (induction hs1 arbitrary: obj w)
  case Nil
  then show ?case by simp
next
  case (Cons x xs)
  show ?case
  proof (cases "x obj w")
    case (Panic msg)
    with Cons.prems(1) show ?thesis by simp
  next
    case (Done r)
    obtain err obj' w' where r: "r = ((err, obj'), w')" by (cases r) auto
    show ?thesis
    proof (cases err)
      case None
      with Done r Cons.prems(1) have "runHooks xs obj' w' = Done ((None, obj1), w1)" by simp
      from Cons.IH [OF this Cons.prems(2)] Done r None show ?thesis by simp
    next
      case (Some e')
      with Done r Cons.prems(1) show ?thesis by simp
    qed
  qed
qed





section \<open>Raw and Make without raw-only defaults\<close>

text \<open>
  C10. For every factory whose \<open>rawDefaults\<close> list is empty, \<open>Raw\<close> and \<open>Make\<close> are
  interchangeable: from the same counter state and the same world, with the same per-call
  mutations, they have the same outcome, that is the same value, the same advanced
  counter and the same effects of the closures, the observer's included.
\<close>
theorem Raw_eq_Make_no_rawDefaults:
  "rawDefaults f = [] \<Longrightarrow> Raw f ts w = Make f ts w"
  by (simp add: Raw_def Make_def applyTraits_Nil andThen_Done split: prod.splits)

text \<open>
  The factory of the example has no raw-only defaults: \<open>Raw\<close> and \<open>Make\<close> with the same
  per-call mutation agree, both return user 1 with the per-call role and call the observer
  once.
\<close>
theorem Raw_eq_Make_no_rawDefaults_witness:
  "rawDefaults layeredFactory = [] \<and>
   Raw layeredFactory [setRole ''C''] emptyWorld = Make layeredFactory [setRole ''C''] emptyWorld \<and>
   map_option fst (returned (Raw layeredFactory [setRole ''C''] emptyWorld))
     = Some \<lparr>num = 1, role = ''C'', token = []\<rparr> \<and>
   map_option taps (worldAfter (Raw layeredFactory [setRole ''C''] emptyWorld)) = Some 1"
proof -
  have h: "rawDefaults layeredFactory = []"
    by (simp add: layeredFactory_def Tap_def WithTraits_def WithDefaults_def New_def)
  have v: "map_option fst (returned (Make layeredFactory [setRole ''C''] emptyWorld))
     = Some \<lparr>num = 1, role = ''C'', token = []\<rparr>"
    by (simp add: returned_def Make_def nextSeq_def andThen_def applySequence_def callTap_def
        layeredFactory_def Tap_def WithTraits_def WithDefaults_def New_def
        newUser_def setRole_def countTap_def emptyWorld_def)
  have t: "map_option taps (worldAfter (Make layeredFactory [setRole ''C''] emptyWorld)) = Some 1"
    by (simp add: worldAfter_def Make_def nextSeq_def andThen_def applySequence_def callTap_def
        layeredFactory_def Tap_def WithTraits_def WithDefaults_def New_def
        newUser_def setRole_def countTap_def emptyWorld_def)
  from Raw_eq_Make_no_rawDefaults [OF h]
  have e: "Raw layeredFactory [setRole ''C''] emptyWorld = Make layeredFactory [setRole ''C''] emptyWorld" .
  from h e v t show ?thesis by simp
qed

section \<open>The order of the layers\<close>

lemma layer_consequences:
  fixes F :: "'a \<Rightarrow> 'v"
  assumes mk: "returnsNormally (makeFn f)" and tp: "tapReturns (tapFn f)"
    and sq: "sequences f = []"
    and ds: "defaults f = ds @ [a]" "list_all returnsNormally ds" "setsField F A a"
    and gs: "traits f = gs @ [b]" "list_all returnsNormally gs" "setsField F B b"
    and c: "setsField F C c"
  shows "\<exists>t f' w'. Make f [c] w = Done ((t, f'), w') \<and> F t = C"
    and "\<exists>t f' w'. Make f [] w = Done ((t, f'), w') \<and> F t = B"
    and "\<exists>t f' w'. Make (f\<lparr>traits := []\<rparr>) [] w = Done ((t, f'), w') \<and> F t = A"
proof -
  note mk' = mk [unfolded returnsNormally_def]
  have D: "\<And>t w. \<exists>t' w'. applyTraits (defaults f) t w = Done (t', w') \<and> F t' = A"
    unfolding ds(1) using ds(2,3) by (rule applyTraits_sets_last)
  have G: "\<And>t w. \<exists>t' w'. applyTraits (traits f) t w = Done (t', w') \<and> F t' = B"
    unfolding gs(1) using gs(2,3) by (rule applyTraits_sets_last)
  have S: "\<And>t w. \<exists>t' w'. applySequence (sequences f) (seq f + 1) t w = Done (t', w') \<and> t' = t"
    using sq by (rule applySequence_Nil_stage)
  have Cc: "\<And>t w. \<exists>t' w'. applyTraits [c] t w = Done (t', w') \<and> F t' = C"
    using applyTraits_sets_last [of "[]" F C c] c by simp
  have N: "\<And>t w. \<exists>t' w'. applyTraits [] t w = Done (t', w') \<and> t' = t" by simp
  from Make_stages [OF mk' D G S Cc tp, of w]
  show "\<exists>t f' w'. Make f [c] w = Done ((t, f'), w') \<and> F t = C" by blast
  from Make_stages [OF mk' D G S N tp, of w]
  show "\<exists>t f' w'. Make f [] w = Done ((t, f'), w') \<and> F t = B" by blast
  let ?g = "f\<lparr>traits := []\<rparr>"
  have mkg: "ensures (makeFn ?g) (\<lambda>x y. True)" using mk' by simp
  have Dg: "\<And>t w. \<exists>t' w'. applyTraits (defaults ?g) t w = Done (t', w') \<and> F t' = A"
    using D by simp
  have Gg: "\<And>t w. \<exists>t' w'. applyTraits (traits ?g) t w = Done (t', w') \<and> t' = t" by simp
  have Sg: "\<And>t w. \<exists>t' w'. applySequence (sequences ?g) (seq ?g + 1) t w = Done (t', w') \<and> t' = t"
    using S by simp
  have tpg: "tapReturns (tapFn ?g)" using tp by simp
  from Make_stages [OF mkg Dg Gg Sg N tpg, of w]
  show "\<exists>t f' w'. Make ?g [] w = Done ((t, f'), w') \<and> F t = A" by blast
qed

lemma layer_consequences_pattern:
  fixes F :: "'a \<Rightarrow> 'v"
  assumes mk: "returnsNormally (makeFn f)" and tp: "tapReturns (tapFn f)"
    and ds: "defaults f = ds @ [a]" "list_all returnsNormally ds" "setsField F A a"
    and gs: "traits f = gs @ [b]" "list_all returnsNormally gs" "setsField F B b"
    and c: "setsField F C c"
    and sq: "sequences f \<noteq> []" "0 < sint (seq f + 1)"
      "setsField F P (sequences f ! patternIndex (seq f + 1) (length (sequences f)))"
  shows "\<exists>t f' w'. Make f [c] w = Done ((t, f'), w') \<and> F t = C"
    and "\<exists>t f' w'. Make f [] w = Done ((t, f'), w') \<and> F t = P"
proof -
  note mk' = mk [unfolded returnsNormally_def]
  have D: "\<And>t w. \<exists>t' w'. applyTraits (defaults f) t w = Done (t', w') \<and> F t' = A"
    unfolding ds(1) using ds(2,3) by (rule applyTraits_sets_last)
  have G: "\<And>t w. \<exists>t' w'. applyTraits (traits f) t w = Done (t', w') \<and> F t' = B"
    unfolding gs(1) using gs(2,3) by (rule applyTraits_sets_last)
  have S: "\<And>t w. \<exists>t' w'. applySequence (sequences f) (seq f + 1) t w = Done (t', w') \<and> F t' = P"
    unfolding applySequence_patternIndex [OF sq(1,2)]
    using sq(3) [unfolded setsField_def] by (rule ensuresD)
  have Cc: "\<And>t w. \<exists>t' w'. applyTraits [c] t w = Done (t', w') \<and> F t' = C"
    using applyTraits_sets_last [of "[]" F C c] c by simp
  have N: "\<And>t w. \<exists>t' w'. applyTraits [] t w = Done (t', w') \<and> t' = t" by simp
  from Make_stages [OF mk' D G S Cc tp, of w]
  show "\<exists>t f' w'. Make f [c] w = Done ((t, f'), w') \<and> F t = C" by blast
  from Make_stages [OF mk' D G S N tp, of w]
  show "\<exists>t f' w'. Make f [] w = Done ((t, f'), w') \<and> F t = P" by blast
qed

text \<open>
  C1. The order of the layers. For every counter that admits a pattern index (no
  pattern, or a positive sequence value), \<open>Make\<close> is the produce-one of the specification
  in standard mode and \<open>Raw\<close> is it in raw mode: the constructor runs first on the
  incremented counter, then the layers of \<open>layersInOrder\<close> in list order (defaults,
  raw-only defaults on the raw path only, global traits, the pattern element at index
  \<open>(seq - 1) mod length\<close> when the pattern is non-empty, per-call mutations), then the
  observer. Hence, for a factory whose closures return normally, whose last default sets
  the field \<open>F\<close> to \<open>A\<close> and whose last global trait sets it to \<open>B\<close>, and a per-call mutation
  that sets it to \<open>C\<close>:
  \<^item> without a pattern, \<open>Make\<close> with the per-call mutation returns a value with \<open>F = C\<close>;
    without the per-call mutation, with \<open>F = B\<close>; without the global traits too, with
    \<open>F = A\<close>;
  \<^item> with a pattern whose element of this sequence value sets \<open>F\<close> to \<open>P\<close>, \<open>Make\<close> with the
    per-call mutation returns a value with \<open>F = C\<close>, and without it with \<open>F = P\<close>: the
    pattern stage comes after the global traits and before the per-call mutations.
\<close>
theorem layer_order:
  "(sequences f = [] \<or> 0 < sint (seq f + 1) \<longrightarrow>
      Make f ts w = produceOne f ts Standard w \<and>
      Raw f ts w = produceOne f ts RawMode w) \<and>
   (returnsNormally (makeFn f) \<and> tapReturns (tapFn f) \<and>
    defaults f = ds @ [a] \<and> list_all returnsNormally ds \<and> setsField F A a \<and>
    traits f = gs @ [b] \<and> list_all returnsNormally gs \<and> setsField F B b \<and>
    setsField F C c \<longrightarrow>
      (sequences f = [] \<longrightarrow>
         (\<exists>t f' w'. Make f [c] w = Done ((t, f'), w') \<and> F t = C) \<and>
         (\<exists>t f' w'. Make f [] w = Done ((t, f'), w') \<and> F t = B) \<and>
         (\<exists>t f' w'. Make (f\<lparr>traits := []\<rparr>) [] w = Done ((t, f'), w') \<and> F t = A)) \<and>
      (sequences f \<noteq> [] \<and> 0 < sint (seq f + 1) \<and>
       setsField F P (sequences f ! patternIndex (seq f + 1) (length (sequences f))) \<longrightarrow>
         (\<exists>t f' w'. Make f [c] w = Done ((t, f'), w') \<and> F t = C) \<and>
         (\<exists>t f' w'. Make f [] w = Done ((t, f'), w') \<and> F t = P)))"
proof -
  have eq: "sequences f = [] \<or> 0 < sint (seq f + 1) \<Longrightarrow>
      Make f ts w = produceOne f ts Standard w \<and> Raw f ts w = produceOne f ts RawMode w"
    by (simp only: Make_produceOne Raw_produceOne)
  show ?thesis
    using eq layer_consequences [of f ds a F A gs b B C c w]
      layer_consequences_pattern [of f ds a F A gs b B C c P w]
    by blast
qed

text \<open>
  The scenario of the claim: defaults set the role to \<open>A\<close>, global traits to \<open>B\<close>, a
  per-call mutation to \<open>C\<close>. Without a pattern the roles are \<open>C\<close>, \<open>B\<close> and \<open>A\<close>. With the
  pattern \<open>[X, Y]\<close> and the counter at 1, the second item gets the element at index 1:
  the role is \<open>Y\<close> without the per-call mutation and \<open>C\<close> with it, and \<open>Make\<close> is the
  produce-one of the specification there.
\<close>
theorem layer_order_witness:
  "returnsNormally (makeFn layeredFactory) \<and> tapReturns (tapFn layeredFactory) \<and>
   sequences layeredFactory = [] \<and>
   defaults layeredFactory = [] @ [setRole ''A''] \<and> setsField role ''A'' (setRole ''A'') \<and>
   traits layeredFactory = [] @ [setRole ''B''] \<and> setsField role ''B'' (setRole ''B'') \<and>
   setsField role ''C'' (setRole ''C'') \<and>
   map_option (role \<circ> fst) (returned (Make layeredFactory [setRole ''C''] emptyWorld)) = Some ''C'' \<and>
   map_option (role \<circ> fst) (returned (Make layeredFactory [] emptyWorld)) = Some ''B'' \<and>
   map_option (role \<circ> fst) (returned (Make (layeredFactory\<lparr>traits := []\<rparr>) [] emptyWorld)) = Some ''A'' \<and>
   sequences layeredPattern = [setRole ''X'', setRole ''Y''] \<and>
   0 < sint (seq layeredPattern + 1) \<and>
   patternIndex (seq layeredPattern + 1) (length (sequences layeredPattern)) = 1 \<and>
   setsField role ''Y'' (sequences layeredPattern ! 1) \<and>
   Make layeredPattern [setRole ''C''] emptyWorld
     = produceOne layeredPattern [setRole ''C''] Standard emptyWorld \<and>
   layersInOrder layeredPattern Standard (seq layeredPattern + 1) [setRole ''C'']
     = [setRole ''A'', setRole ''B'', setRole ''Y'', setRole ''C''] \<and>
   map_option (role \<circ> fst) (returned (Make layeredPattern [setRole ''C''] emptyWorld)) = Some ''C'' \<and>
   map_option (role \<circ> fst) (returned (Make layeredPattern [] emptyWorld)) = Some ''Y''"
proof -
  note fdefs = layeredFactory_def Tap_def WithTraits_def WithDefaults_def New_def
  note pdefs = layeredPattern_def Sequence_def fdefs
  have h1: "returnsNormally (makeFn layeredFactory)"
    by (simp add: returnsNormally_def ensures_def fdefs newUser_def)
  have h2: "tapReturns (tapFn layeredFactory)"
    by (simp add: tapReturns_def returnsNormally_def ensures_def fdefs countTap_def)
  have h3: "sequences layeredFactory = []" by (simp add: fdefs)
  have h4: "defaults layeredFactory = [] @ [setRole ''A'']" by (simp add: fdefs)
  have h5: "traits layeredFactory = [] @ [setRole ''B'']" by (simp add: fdefs)
  have la: "list_all returnsNormally ([] :: (user, world) Trait list)" by simp
  note sA = setRole_sets [of "''A''"] and sB = setRole_sets [of "''B''"]
    and sC = setRole_sets [of "''C''"]
  from layer_order [of layeredFactory "[]" emptyWorld "[]" "setRole ''A''" role "''A''"
      "[]" "setRole ''B''" "''B''" "''C''" "setRole ''C''"] h1 h2 h3 h4 h5 sA sB sC la
  have c: "(\<exists>t f' w'. Make layeredFactory [setRole ''C''] emptyWorld = Done ((t, f'), w') \<and> role t = ''C'') \<and>
      (\<exists>t f' w'. Make layeredFactory [] emptyWorld = Done ((t, f'), w') \<and> role t = ''B'') \<and>
      (\<exists>t f' w'. Make (layeredFactory\<lparr>traits := []\<rparr>) [] emptyWorld = Done ((t, f'), w') \<and> role t = ''A'')"
    by blast
  from c have r: "map_option (role \<circ> fst) (returned (Make layeredFactory [setRole ''C''] emptyWorld)) = Some ''C'' \<and>
   map_option (role \<circ> fst) (returned (Make layeredFactory [] emptyWorld)) = Some ''B'' \<and>
   map_option (role \<circ> fst) (returned (Make (layeredFactory\<lparr>traits := []\<rparr>) [] emptyWorld)) = Some ''A''"
    by (auto simp: returned_def)
  have g1: "returnsNormally (makeFn layeredPattern)"
    by (simp add: returnsNormally_def ensures_def pdefs newUser_def)
  have g2: "tapReturns (tapFn layeredPattern)"
    by (simp add: tapReturns_def returnsNormally_def ensures_def pdefs countTap_def)
  have g3: "sequences layeredPattern = [setRole ''X'', setRole ''Y'']" by (simp add: pdefs)
  have g3': "sequences layeredPattern \<noteq> []" by (simp add: g3)
  have g4: "defaults layeredPattern = [] @ [setRole ''A'']" by (simp add: pdefs)
  have g5: "traits layeredPattern = [] @ [setRole ''B'']" by (simp add: pdefs)
  have g6: "0 < sint (seq layeredPattern + 1)" by (simp add: pdefs)
  have g7: "patternIndex (seq layeredPattern + 1) (length (sequences layeredPattern)) = 1"
    by (simp add: patternIndex_def pdefs)
  have g8: "setsField role ''Y'' (sequences layeredPattern ! 1)"
    by (simp add: g3 setRole_sets)
  have g8': "setsField role ''Y''
      (sequences layeredPattern ! patternIndex (seq layeredPattern + 1) (length (sequences layeredPattern)))"
    using g8 by (simp only: g7)
  note inst = layer_order [of layeredPattern "[setRole ''C'']" emptyWorld "[]" "setRole ''A''"
      role "''A''" "[]" "setRole ''B''" "''B''" "''C''" "setRole ''C''" "''Y''"]
  from inst g6
  have e: "Make layeredPattern [setRole ''C''] emptyWorld
     = produceOne layeredPattern [setRole ''C''] Standard emptyWorld" by blast
  from inst g1 g2 g3' g4 g5 g6 g8' sA sB sC la
  have d: "(\<exists>t f' w'. Make layeredPattern [setRole ''C''] emptyWorld = Done ((t, f'), w') \<and> role t = ''C'') \<and>
      (\<exists>t f' w'. Make layeredPattern [] emptyWorld = Done ((t, f'), w') \<and> role t = ''Y'')"
    by blast
  from d have q: "map_option (role \<circ> fst) (returned (Make layeredPattern [setRole ''C''] emptyWorld)) = Some ''C'' \<and>
   map_option (role \<circ> fst) (returned (Make layeredPattern [] emptyWorld)) = Some ''Y''"
    by (auto simp: returned_def)
  have l: "layersInOrder layeredPattern Standard (seq layeredPattern + 1) [setRole ''C'']
     = [setRole ''A'', setRole ''B'', setRole ''Y'', setRole ''C'']"
    unfolding layersInOrder_def g7 by (simp add: pdefs)
  from h1 h2 h3 h4 h5 sA sB sC r g3 g6 g7 g8 e l q show ?thesis by simp
qed

section \<open>Raw-only defaults\<close>

text \<open>
  C6. Raw-only defaults affect only raw production. Let the constructor give the field
  \<open>G\<close> its construct-time value \<open>g0\<close>, let the last raw-only default set \<open>G\<close> to \<open>v\<close>, and let
  every other layer (defaults, global traits, pattern, per-call mutations) leave \<open>G\<close> as
  it is. Then \<open>Make\<close> returns a value whose \<open>G\<close> is still \<open>g0\<close>, and \<open>Raw\<close> returns a value
  whose \<open>G\<close> is \<open>v\<close>. (The counter is taken non-negative so that a non-empty pattern
  has an index.)
\<close>
theorem rawDefaults_only_on_raw_path:
  fixes G :: "'a \<Rightarrow> 'v"
  assumes mk: "ensures (makeFn f) (\<lambda>s t. G t = g0)"
    and ds: "list_all (keepsField G) (defaults f)"
    and rs: "rawDefaults f = rs @ [r]" "list_all returnsNormally rs" "setsField G v r"
    and gs: "list_all (keepsField G) (traits f)"
    and sq: "list_all (keepsField G) (sequences f)" "sequences f = [] \<or> 0 \<le> sint (seq f)"
    and ts: "list_all (keepsField G) ts"
    and tp: "tapReturns (tapFn f)"
  shows "(\<exists>t f' w'. Make f ts w = Done ((t, f'), w') \<and> G t = g0) \<and>
         (\<exists>t f' w'. Raw f ts w = Done ((t, f'), w') \<and> G t = v)"
proof -
  have D: "\<And>t w. \<exists>t' w'. applyTraits (defaults f) t w = Done (t', w') \<and> G t' = G t"
    using ds by (rule applyTraits_keeps)
  have R: "\<And>t w. \<exists>t' w'. applyTraits (rawDefaults f) t w = Done (t', w') \<and> G t' = v"
    unfolding rs(1) using rs(2,3) by (rule applyTraits_sets_last)
  have T: "\<And>t w. \<exists>t' w'. applyTraits (traits f) t w = Done (t', w') \<and> G t' = G t"
    using gs by (rule applyTraits_keeps)
  have S: "\<And>t w. \<exists>t' w'. applySequence (sequences f) (seq f + 1) t w = Done (t', w') \<and> G t' = G t"
    using sq by (intro applySequence_keeps) simp_all
  have P: "\<And>t w. \<exists>t' w'. applyTraits ts t w = Done (t', w') \<and> G t' = G t"
    using ts by (rule applyTraits_keeps)
  from Make_stages [OF mk D T S P tp, of w]
  have 1: "\<exists>t f' w'. Make f ts w = Done ((t, f'), w') \<and> G t = g0" by force
  from Raw_stages [OF mk D R T S P tp, of w]
  have 2: "\<exists>t f' w'. Raw f ts w = Done ((t, f'), w') \<and> G t = v" by force
  from 1 2 show ?thesis ..
qed

text \<open>
  The constructor leaves the token empty and the raw-only default sets it: \<open>Make\<close> returns
  the empty token, \<open>Raw\<close> the secret.
\<close>
theorem rawDefaults_only_on_raw_path_witness:
  "ensures (makeFn rawFactory) (\<lambda>s t. token t = []) \<and>
   list_all (keepsField token) (defaults rawFactory) \<and>
   rawDefaults rawFactory = [] @ [setToken ''secret''] \<and>
   setsField token ''secret'' (setToken ''secret'') \<and>
   list_all (keepsField token) (traits rawFactory) \<and>
   list_all (keepsField token) (sequences rawFactory) \<and>
   sequences rawFactory = [] \<and>
   list_all (keepsField token) [setRole ''x''] \<and>
   tapReturns (tapFn rawFactory) \<and>
   map_option (token \<circ> fst) (returned (Make rawFactory [setRole ''x''] emptyWorld)) = Some [] \<and>
   map_option (token \<circ> fst) (returned (Raw rawFactory [setRole ''x''] emptyWorld)) = Some ''secret''"
proof -
  have h1: "ensures (makeFn rawFactory) (\<lambda>s t. token t = [])"
    by (simp add: ensures_def rawFactory_def Tap_def WithRawDefaults_def WithDefaults_def
        New_def newUser_def)
  have h2: "list_all (keepsField token) (defaults rawFactory)"
    by (simp add: rawFactory_def Tap_def WithRawDefaults_def WithDefaults_def New_def
        setRole_keeps_token)
  have h3: "rawDefaults rawFactory = [] @ [setToken ''secret'']"
    by (simp add: rawFactory_def Tap_def WithRawDefaults_def WithDefaults_def New_def)
  have h4: "list_all returnsNormally ([] :: (user, world) Trait list)" by simp
  note h5 = setToken_sets [of "''secret''"]
  have h6: "list_all (keepsField token) (traits rawFactory)"
    by (simp add: rawFactory_def Tap_def WithRawDefaults_def WithDefaults_def New_def)
  have h7: "sequences rawFactory = []"
    by (simp add: rawFactory_def Tap_def WithRawDefaults_def WithDefaults_def New_def)
  have h8: "list_all (keepsField token) (sequences rawFactory)" by (simp add: h7)
  have h9: "list_all (keepsField token) [setRole ''x'']" by (simp add: setRole_keeps_token)
  have h10: "tapReturns (tapFn rawFactory)"
    by (simp add: tapReturns_def returnsNormally_def ensures_def rawFactory_def Tap_def
        countTap_def)
  from rawDefaults_only_on_raw_path [OF h1 h2 h3 h4 h5 h6 h8 disjI1 [OF h7] h9 h10, of emptyWorld]
  have "map_option (token \<circ> fst) (returned (Make rawFactory [setRole ''x''] emptyWorld)) = Some [] \<and>
   map_option (token \<circ> fst) (returned (Raw rawFactory [setRole ''x''] emptyWorld)) = Some ''secret''"
    by (auto simp: returned_def)
  with h1 h2 h3 h5 h6 h7 h8 h9 h10 show ?thesis by simp
qed

section \<open>Sequence values\<close>

text \<open>
  C4. Sequence values of successive productions. Take a definition with an empty
  sequence pattern and a fresh counter, whose constructor records the sequence number it
  receives in the field \<open>tag\<close> and whose other closures return normally and leave \<open>tag\<close>
  alone. Then \<open>n\<close> successive calls of \<open>Make\<close> on it (the loop of \<open>MakeMany\<close>, for a count
  within the positive range of \<open>int64\<close>) return \<open>n\<close> values that carry the sequence values
  1, 2, ..., n in invocation order, each strictly greater than the one before, and leave
  the counter at \<open>n\<close>.
\<close>
theorem Make_sequence_values:
  fixes tag :: "'a \<Rightarrow> int64"
  assumes mk: "ensures (makeFn f) (\<lambda>s t. tag t = s)"
    and ds: "list_all (keepsField tag) (defaults f)"
    and gs: "list_all (keepsField tag) (traits f)"
    and sq: "sequences f = []"
    and ts: "list_all (keepsField tag) ts"
    and tp: "tapReturns (tapFn f)"
    and fresh: "seq f = 0"
    and n: "0 \<le> n" "n < 2 ^ 63"
  shows "\<exists>items f' w'. MakeMany f n ts w = Done ((items, f'), w') \<and>
           map (sint \<circ> tag) items = map int [1..<Suc (nat n)] \<and>
           sorted_wrt (<) (map (sint \<circ> tag) items) \<and>
           sint (seq f') = n"
proof -
  from makeLoop_tagged [OF mk ds gs sq ts tp, of "nat n" "[]" w]
  obtain items w' where
    lp: "makeLoop (nat n) f ts [] w = Done ((items, f\<lparr>seq := seq f + of_nat (nat n)\<rparr>), w')"
    and tg: "map tag items = map (\<lambda>i. seq f + of_nat i) [1..<Suc (nat n)]" by auto
  have small: "nat n < 2 ^ 63" using n by (simp add: nat_less_iff)
  have "map (sint \<circ> tag) items = map sint (map tag items)" by simp
  also have "\<dots> = map (\<lambda>i. sint (of_nat i :: int64)) [1..<Suc (nat n)]"
    unfolding tg by (simp add: fresh o_def del: upt_Suc)
  also have "\<dots> = map int [1..<Suc (nat n)]"
  proof (rule map_cong [OF refl])
    fix i assume "i \<in> set [1..<Suc (nat n)]"
    then have "i \<le> nat n" by (simp del: upt_Suc)
    from this small have "i < 2 ^ 63" by (rule le_less_trans)
    then show "sint (of_nat i :: int64) = int i" by (rule sint_of_nat_small)
  qed
  finally have vals: "map (sint \<circ> tag) items = map int [1..<Suc (nat n)]" .
  have srt: "sorted_wrt (<) (map int [1..<Suc (nat n)])"
    by (simp add: sorted_wrt_map del: upt_Suc)
  have cnt: "sint (seq (f\<lparr>seq := seq f + of_nat (nat n)\<rparr>)) = n"
    using sint_of_nat_small [OF small] n(1) by (simp add: fresh)
  have "MakeMany f n ts w = Done ((items, f\<lparr>seq := seq f + of_nat (nat n)\<rparr>), w')"
    using lp n(1) by (simp add: MakeMany_def)
  with vals srt cnt show ?thesis by (metis (no_types))
qed

text \<open>Three users made in a row from a fresh factory are numbered 1, 2, 3.\<close>
theorem Make_sequence_values_witness:
  "ensures (makeFn userFactory) (\<lambda>s t. num t = s) \<and>
   list_all (keepsField num) (defaults userFactory) \<and>
   list_all (keepsField num) (traits userFactory) \<and>
   sequences userFactory = [] \<and>
   list_all (keepsField num) [setRole ''x''] \<and>
   tapReturns (tapFn userFactory) \<and>
   seq userFactory = 0 \<and> (0::int) \<le> 3 \<and> (3::int) < 2 ^ 63 \<and>
   map_option (map (sint \<circ> num) \<circ> fst) (returned (MakeMany userFactory 3 [setRole ''x''] emptyWorld))
     = Some [1, 2, 3] \<and>
   map_option (sint \<circ> seq \<circ> snd) (returned (MakeMany userFactory 3 [setRole ''x''] emptyWorld))
     = Some 3"
proof -
  have h1: "ensures (makeFn userFactory) (\<lambda>s t. num t = s)"
    by (simp add: ensures_def userFactory_def Tap_def WithDefaults_def New_def newUser_def)
  have h2: "list_all (keepsField num) (defaults userFactory)"
    by (simp add: userFactory_def Tap_def WithDefaults_def New_def setRole_keeps_num)
  have h3: "list_all (keepsField num) (traits userFactory)"
    by (simp add: userFactory_def Tap_def WithDefaults_def New_def)
  have h4: "sequences userFactory = []"
    by (simp add: userFactory_def Tap_def WithDefaults_def New_def)
  have h5: "list_all (keepsField num) [setRole ''x'']" by (simp add: setRole_keeps_num)
  have h6: "tapReturns (tapFn userFactory)"
    by (simp add: tapReturns_def returnsNormally_def ensures_def userFactory_def Tap_def
        countTap_def)
  have h7: "seq userFactory = 0"
    by (simp add: userFactory_def Tap_def WithDefaults_def New_def)
  have h8: "(0::int) \<le> 3" and h9: "(3::int) < 2 ^ 63" by simp_all
  have up: "[1..<Suc (nat 3)] = [1, 2, 3]" by (simp add: upt_rec)
  from Make_sequence_values [OF h1 h2 h3 h4 h5 h6 h7 h8 h9, of emptyWorld]
  have "map_option (map (sint \<circ> num) \<circ> fst) (returned (MakeMany userFactory 3 [setRole ''x''] emptyWorld))
     = Some [1, 2, 3] \<and>
   map_option (sint \<circ> seq \<circ> snd) (returned (MakeMany userFactory 3 [setRole ''x''] emptyWorld))
     = Some 3"
    unfolding up by (auto simp: returned_def)
  with h1 h2 h3 h4 h5 h6 h7 show ?thesis by simp
qed

section \<open>The sequence pattern\<close>

text \<open>
  C5. The cyclic stage. When the pattern is non-empty, the item produced with the
  (positive) sequence value \<open>seq f + 1\<close> gets, between the global traits and the per-call
  mutations, exactly the pattern element at index \<open>(seq - 1) mod length\<close>; when the
  pattern is empty there is no stage between them. This holds for \<open>Make\<close> and for \<open>Raw\<close>.
\<close>
theorem pattern_stage:
  "(sequences f \<noteq> [] \<and> 0 < sint (seq f + 1) \<longrightarrow>
      Make f ts w =
        produceWith f (defaults f @ traits f
          @ [sequences f ! patternIndex (seq f + 1) (length (sequences f))] @ ts) w \<and>
      Raw f ts w =
        produceWith f (defaults f @ rawDefaults f @ traits f
          @ [sequences f ! patternIndex (seq f + 1) (length (sequences f))] @ ts) w) \<and>
   (sequences f = [] \<longrightarrow>
      Make f ts w = produceWith f (defaults f @ traits f @ ts) w \<and>
      Raw f ts w = produceWith f (defaults f @ rawDefaults f @ traits f @ ts) w)"
  by (simp add: Make_stagewise Raw_stagewise applySequence_patternIndex)

text \<open>
  With the pattern \<open>[X, Y]\<close>: the first item of a fresh factory has the element at index 0
  applied, and five items produced in a row carry \<open>X, Y, X, Y, X\<close>.
\<close>
theorem pattern_stage_witness:
  "sequences patternFactory \<noteq> [] \<and> 0 < sint (seq patternFactory + 1) \<and>
   patternIndex (seq patternFactory + 1) (length (sequences patternFactory)) = 0 \<and>
   Make patternFactory [] emptyWorld = produceWith patternFactory [setRole ''X''] emptyWorld \<and>
   map_option (map role \<circ> fst) (returned (MakeMany patternFactory 5 [] emptyWorld))
     = Some [''X'', ''Y'', ''X'', ''Y'', ''X'']"
proof -
  have h1: "sequences patternFactory \<noteq> []"
    by (simp add: patternFactory_def Sequence_def New_def)
  have h2: "0 < sint (seq patternFactory + 1)"
    by (simp add: patternFactory_def Sequence_def New_def)
  have ix: "patternIndex (seq patternFactory + 1) (length (sequences patternFactory)) = 0"
    by (simp add: patternIndex_def patternFactory_def Sequence_def New_def)
  have ls: "defaults patternFactory @ traits patternFactory
      @ [sequences patternFactory ! 0] @ [] = [setRole ''X'']"
    by (simp add: patternFactory_def Sequence_def New_def)
  from pattern_stage [of patternFactory "[]" emptyWorld] h1 h2
  have mk: "Make patternFactory [] emptyWorld = produceWith patternFactory [setRole ''X''] emptyWorld"
    by (simp only: ix ls simp_thms)
  have five: "map_option (map role \<circ> fst) (returned (MakeMany patternFactory 5 [] emptyWorld))
     = Some [''X'', ''Y'', ''X'', ''Y'', ''X'']"
    by (simp add: MakeMany_def eval_nat_numeral returned_def Make_def nextSeq_def andThen_def
        applySequence_def callTap_def patternFactory_def Sequence_def New_def newUser_def
        setRole_def signed_modulo_int_def)
  from h1 h2 ix mk five show ?thesis by simp
qed

section \<open>State and Clone\<close>




section \<open>Errors of the hooks and of the configuration\<close>

text \<open>
  C7. A failing before-hook aborts \<open>Create\<close>. Let a persist function be configured, let
  \<open>Make\<close> return the value \<open>obj\<close>, let the before-hooks \<open>hs1\<close> in front of the hook \<open>h\<close> report
  no error, and let \<open>h\<close> report the error \<open>e\<close>. Then \<open>Create\<close> returns exactly \<open>e\<close> (and no
  value), and the world it leaves is the world \<open>h\<close> left: the persist function \<open>p\<close>, the
  before-hooks \<open>hs2\<close> behind \<open>h\<close> and the after-hooks were not called, whatever they are.
\<close>
theorem before_hook_error_aborts_Create:
  assumes "persist f = Some p"
    and "Make f ts w = Done ((obj, f'), w1)"
    and "beforeHooks f = hs1 @ h # hs2"
    and "runHooks hs1 obj w1 = Done ((None, obj1), w2)"
    and "h obj1 w2 = Done ((Some e, obj2), w3)"
  shows "Create f ts w = Done ((Inl e, f'), w3)"
proof -
  have "runHooks (beforeHooks f) obj w1 = Done ((Some e, obj2), w3)"
    unfolding assms(3) using assms(4,5) by (rule runHooks_fails_at)
  with assms(1,2) show ?thesis by (simp add: Create_def andThen_def)
qed

text \<open>
  The first before-hook records its call, the second fails; the third before-hook, the
  persist function and the after-hook would record their calls. \<open>Create\<close> returns the
  error of the second hook and the log holds the first hook only.
\<close>
theorem before_hook_error_aborts_Create_witness:
  "persist hookedFactory = Some (persistAs ''persist'') \<and>
   Make hookedFactory [] emptyWorld
     = Done ((\<lparr>num = 1, role = ''user'', token = []\<rparr>, hookedFactory\<lparr>seq := 1\<rparr>), emptyWorld) \<and>
   beforeHooks hookedFactory
     = [noteHook ''before 1''] @ failingHook ''validation failed'' # [noteHook ''before 3''] \<and>
   runHooks [noteHook ''before 1''] \<lparr>num = 1, role = ''user'', token = []\<rparr> emptyWorld
     = Done ((None, \<lparr>num = 1, role = ''user'', token = []\<rparr>),
         emptyWorld\<lparr>callLog := [''before 1'']\<rparr>) \<and>
   failingHook ''validation failed'' \<lparr>num = 1, role = ''user'', token = []\<rparr>
       (emptyWorld\<lparr>callLog := [''before 1'']\<rparr>)
     = Done ((Some ''validation failed'', \<lparr>num = 1, role = ''user'', token = []\<rparr>),
         emptyWorld\<lparr>callLog := [''before 1'']\<rparr>) \<and>
   Create hookedFactory [] emptyWorld
     = Done ((Inl ''validation failed'', hookedFactory\<lparr>seq := 1\<rparr>),
         emptyWorld\<lparr>callLog := [''before 1'']\<rparr>) \<and>
   map_option callLog (worldAfter (Create hookedFactory [] emptyWorld)) = Some [''before 1'']"
proof -
  let ?u = "\<lparr>num = 1, role = ''user'', token = []\<rparr>"
  let ?w = "emptyWorld\<lparr>callLog := [''before 1'']\<rparr>"
  have h1: "persist hookedFactory = Some (persistAs ''persist'')"
    by (simp add: hookedFactory_def AfterCreate_def BeforeCreate_def WithPersist_def New_def)
  have h2: "Make hookedFactory [] emptyWorld = Done ((?u, hookedFactory\<lparr>seq := 1\<rparr>), emptyWorld)"
    by (simp add: Make_def nextSeq_def andThen_def applySequence_def callTap_def
        hookedFactory_def AfterCreate_def BeforeCreate_def WithPersist_def New_def newUser_def)
  have h3: "beforeHooks hookedFactory
     = [noteHook ''before 1''] @ failingHook ''validation failed'' # [noteHook ''before 3'']"
    by (simp add: hookedFactory_def AfterCreate_def BeforeCreate_def WithPersist_def New_def)
  have h4: "runHooks [noteHook ''before 1''] ?u emptyWorld = Done ((None, ?u), ?w)"
    by (simp add: noteHook_def emptyWorld_def)
  have h5: "failingHook ''validation failed'' ?u ?w = Done ((Some ''validation failed'', ?u), ?w)"
    by (simp add: failingHook_def)
  note c = before_hook_error_aborts_Create [OF h1 h2 h3 h4 h5]
  from c have l: "map_option callLog (worldAfter (Create hookedFactory [] emptyWorld))
      = Some [''before 1'']"
    by (simp add: worldAfter_def)
  from h1 h2 h3 h4 h5 c l show ?thesis by simp
qed

text \<open>
  C9. Configuration errors panic. \<open>Create\<close> and \<open>CreateMany\<close> on a definition without a
  persist function panic, before anything is produced, and \<open>State\<close> with a name that is not
  in the registry panics: none of them returns, neither a value nor an error value.
\<close>
theorem configuration_errors_panic:
  "(persist f = None \<longrightarrow>
      Create f ts w = Panic ''factory: Create called without persist function; use WithPersist'' \<and>
      CreateMany f n ts w
        = Panic ''factory: CreateMany called without persist function; use WithPersist'') \<and>
   (states f name = None \<longrightarrow>
      State f name = Panic (''factory: unknown state '' @ [CHR 0x27] @ name @ [CHR 0x27]))"
  by (simp add: Create_def CreateMany_def State_def)

text \<open>
  The user factory of the examples has no persist function and no state \<open>nonexistent\<close>.
\<close>
theorem configuration_errors_panic_witness:
  "persist userFactory = None \<and>
   Create userFactory [] emptyWorld
     = Panic ''factory: Create called without persist function; use WithPersist'' \<and>
   CreateMany userFactory 3 [] emptyWorld
     = Panic ''factory: CreateMany called without persist function; use WithPersist'' \<and>
   states userFactory ''nonexistent'' = None \<and>
   State userFactory ''nonexistent''
     = Panic (''factory: unknown state '' @ [CHR 0x27] @ ''nonexistent'' @ [CHR 0x27])"
proof -
  have h1: "persist userFactory = None"
    by (simp add: userFactory_def Tap_def WithDefaults_def New_def)
  have h2: "states userFactory ''nonexistent'' = None"
    by (simp add: userFactory_def Tap_def WithDefaults_def New_def)
  from configuration_errors_panic [of userFactory "[]" emptyWorld 3 "''nonexistent''"] h1 h2
  show ?thesis by simp
qed

section \<open>Partial results\<close>



section \<open>Belongs-to with a fresh parent\<close>

text \<open>
  C3. Belongs-to-unique, at a concrete input: a post definition composed by \<open>For\<close> with a
  user definition whose persist function records its call. In memory the code does what
  the claim says: \<open>Make\<close> returns a post linked to the fresh user 1, and two posts made in a
  row are linked to the users 1 and 2, one fresh parent per child. On the persistence
  path it does not: \<open>Create\<close> returns the post linked to user 1, and the log holds the call
  of the post's persist function only, so the fresh parent was made in memory and its
  persist function was not called before the child was persisted, nor at all.
\<close>
theorem For_Create_leaves_parent_unpersisted:
  "persist (rd persistedUsers emptyWorld) = Some (persistAs ''user'') \<and>
   map_option fst (returned (Make postOfUser [] emptyWorld))
     = Some \<lparr>title = 1, authorID = 1\<rparr> \<and>
   map_option (map authorID \<circ> fst) (returned (MakeMany postOfUser 2 [] emptyWorld))
     = Some [1, 2] \<and>
   map_option fst (returned (Create postOfUser [] emptyWorld))
     = Some (Inr \<lparr>title = 1, authorID = 1\<rparr>) \<and>
   map_option callLog (worldAfter (Create postOfUser [] emptyWorld)) = Some [''post''] \<and>
   map_option (\<lambda>w. ''user'' \<in> set (callLog w)) (worldAfter (Create postOfUser [] emptyWorld))
     = Some False"
  by (simp add: returned_def worldAfter_def Create_def MakeMany_def eval_nat_numeral Make_def
      nextSeq_def andThen_def applySequence_def callTap_def MakeAt_def For_def factoryAt_def
      postOfUser_def persistedUsers_def postFactory_def userSeqCell_def WithPersist_def New_def
      newPost_def newUser_def persistAs_def linkAuthor_def emptyWorld_def)

end
